theory Spec2Isabelle
  imports Main "HOL-Library.AList"
begin

section \<open>Python values used by the daemon\<close>

text \<open>
  The values \<open>json.loads\<close> produces and \<open>json.dumps\<close> consumes: \<open>None\<close>, booleans,
  integers, floats (a mantissa and a binary exponent), strings, lists and dicts (an
  association list with distinct keys, in insertion order).
\<close>

datatype json =
    JNull
  | JBool bool
  | JInt int
  | JFloat int int
  | JStr string
  | JList "json list"
  | JObj "(string \<times> json) list"

text \<open>The exceptions the handlers catch or let escape.\<close>

datatype exn =
    JSONDecodeError
  | TypeError
  | RecursionError
  | KeyError
  | AttributeError
  | GroupEncryptionError
  | OtherError string

datatype 'a outcome = Returned 'a | Raised exn

text \<open>Python truthiness (\<open>if identifier:\<close>, \<open>if not user:\<close>).\<close>

fun truthy :: "json \<Rightarrow> bool" where
  "truthy JNull = False"
| "truthy (JBool b) = b"
| "truthy (JInt i) = (i \<noteq> 0)"
| "truthy (JFloat m e) = (m \<noteq> 0)"
| "truthy (JStr s) = (s \<noteq> [])"
| "truthy (JList xs) = (xs \<noteq> [])"
| "truthy (JObj kvs) = (kvs \<noteq> [])"

text \<open>
  \<open>body.get(key, default)\<close>: only a dict has the method; on any other value the
  attribute lookup raises \<open>AttributeError\<close>.
\<close>

fun dict_get :: "json \<Rightarrow> string \<Rightarrow> json \<Rightarrow> json outcome" where
  "dict_get (JObj kvs) k dflt = Returned (case map_of kvs k of Some v \<Rightarrow> v | None \<Rightarrow> dflt)"
| "dict_get JNull k dflt = Raised AttributeError"
| "dict_get (JBool b) k dflt = Raised AttributeError"
| "dict_get (JInt i) k dflt = Raised AttributeError"
| "dict_get (JFloat m e) k dflt = Raised AttributeError"
| "dict_get (JStr s) k dflt = Raised AttributeError"
| "dict_get (JList xs) k dflt = Raised AttributeError"

text \<open>\<open>isinstance(v, int)\<close>: \<open>bool\<close> is a subclass of \<open>int\<close> in Python.\<close>

fun isinstance_int :: "json \<Rightarrow> bool" where
  "isinstance_int (JInt i) = True"
| "isinstance_int (JBool b) = True"
| "isinstance_int JNull = False"
| "isinstance_int (JFloat m e) = False"
| "isinstance_int (JStr s) = False"
| "isinstance_int (JList xs) = False"
| "isinstance_int (JObj kvs) = False"

text \<open>
  \<open>str.strip(chars)\<close>: removes from both ends every character that occurs in
  \<open>chars\<close>; the argument is a set of characters, not a prefix.
\<close>

definition py_strip :: "string \<Rightarrow> string \<Rightarrow> string" where
  "py_strip chars s =
     rev (dropWhile (\<lambda>c. c \<in> set chars) (rev (dropWhile (\<lambda>c. c \<in> set chars) s)))"

section \<open>Requests and responses\<close>

text \<open>
  The inbound request as the handlers read it. \<open>query\<close> is a multidict (the first
  value of a key wins), \<open>headers\<close> a case-insensitive multidict, \<open>match_info\<close> the
  path parameters the route extracted.
\<close>

record request =
  http_method :: string
  path :: string
  query :: "(string \<times> string) list"
  headers :: "(string \<times> string) list"
  match_info :: "(string \<times> string) list"
  body :: string

definition query_get :: "(string \<times> string) list \<Rightarrow> string \<Rightarrow> string option" where
  "query_get q k = map_of q k"

definition lower_char :: "char \<Rightarrow> char" where
  "lower_char c =
     (case map_of (zip ''ABCDEFGHIJKLMNOPQRSTUVWXYZ'' ''abcdefghijklmnopqrstuvwxyz'') c of
        Some l \<Rightarrow> l
      | None \<Rightarrow> c)"

definition lower_str :: "string \<Rightarrow> string" where
  "lower_str s = map lower_char s"

definition headers_get :: "(string \<times> string) list \<Rightarrow> string \<Rightarrow> string option" where
  "headers_get hs k = map_of (map (\<lambda>(k', v). (lower_str k', v)) hs) (lower_str k)"

text \<open>\<open>headers.pop(key, None)\<close> on a \<open>CIMultiDict\<close>: drops the first entry of the key.\<close>

fun headers_pop :: "string \<Rightarrow> (string \<times> string) list \<Rightarrow> (string \<times> string) list" where
  "headers_pop k [] = []"
| "headers_pop k (h # hs) =
     (if lower_str (fst h) = lower_str k then hs else h # headers_pop k hs)"

text \<open>\<open>web.Response\<close>: its status (200 when the constructor is given none) and text.\<close>

record response =
  status :: nat
  resp_text :: string

text \<open>The upstream's answer (\<open>aiohttp.ClientResponse\<close>): \<open>.status\<close> and \<open>.text()\<close>.\<close>

record transport_response =
  t_status :: nat
  t_text :: string

section \<open>Credential extraction\<close>

definition get_access_token :: "request \<Rightarrow> string" where
  "get_access_token request =
     (let access_token = (case query_get (query request) ''access_token'' of
                            Some v \<Rightarrow> v | None \<Rightarrow> '''')
      in if access_token = ''''
         then py_strip ''Bearer ''
                (case headers_get (headers request) ''Authorization'' of
                   Some v \<Rightarrow> v | None \<Rightarrow> '''')
         else access_token)"

section \<open>The daemon, its collaborators and the calls it makes\<close>

text \<open>
  The \<open>ssl\<close> argument as \<open>main\<close> computes it
  (\<open>ssl = None if ssl_insecure is False else False\<close>): \<open>SslNone\<close> is Python's \<open>None\<close>
  (certificates are verified), \<open>SslFalse\<close> is \<open>False\<close> (verification is disabled).
\<close>

datatype ssl_param = SslNone | SslFalse

text \<open>
  A \<open>PantaClient\<close> object: the arguments of its constructor, and \<open>client_id\<close>, the
  identity of the object (two clients built from the same arguments are different
  objects).
\<close>

record panta_client =
  client_id :: nat
  pc_homeserver :: string
  pc_user :: json
  pc_device_id :: json
  pc_store_path :: string
  pc_ssl :: ssl_param
  pc_proxy :: "string option"

text \<open>The attributes of \<open>ProxyDaemon\<close>; \<open>default_session\<close> holds the identity of the
  shared \<open>ClientSession\<close> once it exists.\<close>

record proxy_daemon =
  homeserver :: string
  data_dir :: string
  proxy :: "string option"
  ssl :: ssl_param
  client_sessions :: "(string \<times> panta_client) list"
  default_session :: "nat option"

text \<open>The transport a forwarded request goes through: \<open>client.client_session\<close> of a
  registered client, or the daemon's own \<open>ClientSession\<close>.\<close>

datatype http_session = ClientTransport panta_client | DefaultSession nat

text \<open>The keyword arguments of \<open>session.request\<close>.\<close>

record outbound_request =
  o_method :: string
  o_url :: string
  o_data :: string
  o_params :: "(string \<times> string) list"
  o_headers :: "(string \<times> string) list"
  o_proxy :: "string option"
  o_ssl :: ssl_param

record device =
  device_user :: string
  device_ident :: string
  deleted :: bool

datatype login_result =
    LoginResponse string transport_response
  | LoginError transport_response

fun login_transport :: "login_result \<Rightarrow> transport_response" where
  "login_transport (LoginResponse access_token tr) = tr"
| "login_transport (LoginError tr) = tr"

text \<open>A failed sync carries its transport response and what its own \<open>text()\<close> gives.\<close>

datatype sync_result =
    SyncResponse transport_response
  | SyncError transport_response string

datatype keys_query_result =
    KeysQueryResponse "(string \<times> (string \<times> device) list) list"
  | KeysQueryError

text \<open>
  Every object construction and every call on a collaborator that a handler makes, in
  the order it makes them.
\<close>

datatype call =
    NewClientSession nat
  | NewPantaClient panta_client
  | SessionRequest http_session outbound_request
  | SessionClose nat
  | ClientLogin panta_client json json
  | ClientClose panta_client
  | ClientSync panta_client "string option" json
  | KeysUpload panta_client
  | KeysQuery panta_client
  | VerifyDevice panta_client device
  | Print string
  | RoomSend panta_client string string json string
  | ShareGroupSession panta_client string

text \<open>
  Modelled from the spec: the Session collaborator (\<open>pantalaimon.client.PantaClient\<close>,
  not part of the sources at hand) and the libraries (\<open>aiohttp\<close>, \<open>json\<close>) are
  parameters. Section 6 of the specification gives the collaborator's operations; each
  returns a result, and \<open>send\<close> may in addition fail with the distinguished
  group-session-missing error (or any other). \<open>json.loads\<close> returns the decoded value
  or raises: \<open>JSONDecodeError\<close> on text that is not JSON, and other exceptions on text
  it gives up on (\<open>RecursionError\<close> on nesting that is too deep). \<open>'w\<close> is the state of
  everything outside the daemon: the homeserver and the clients' own state.
\<close>

record 'w env =
  json_loads :: "string \<Rightarrow> json outcome"
  json_dumps :: "json \<Rightarrow> string"
  session_request :: "http_session \<Rightarrow> outbound_request \<Rightarrow> 'w \<Rightarrow> transport_response \<times> 'w"
  session_close :: "nat \<Rightarrow> 'w \<Rightarrow> 'w"
  client_login :: "panta_client \<Rightarrow> json \<Rightarrow> json \<Rightarrow> 'w \<Rightarrow> login_result \<times> 'w"
  client_close :: "panta_client \<Rightarrow> 'w \<Rightarrow> 'w"
  client_sync :: "panta_client \<Rightarrow> string option \<Rightarrow> json \<Rightarrow> 'w \<Rightarrow> sync_result \<times> 'w"
  should_upload_keys :: "panta_client \<Rightarrow> 'w \<Rightarrow> bool"
  keys_upload :: "panta_client \<Rightarrow> 'w \<Rightarrow> 'w"
  should_query_keys :: "panta_client \<Rightarrow> 'w \<Rightarrow> bool"
  keys_query :: "panta_client \<Rightarrow> 'w \<Rightarrow> keys_query_result \<times> 'w"
  verify_device :: "panta_client \<Rightarrow> device \<Rightarrow> 'w \<Rightarrow> 'w"
  decrypt_sync_body :: "panta_client \<Rightarrow> json \<Rightarrow> 'w \<Rightarrow> json"
  room_send ::
    "panta_client \<Rightarrow> string \<Rightarrow> string \<Rightarrow> json \<Rightarrow> string \<Rightarrow> 'w \<Rightarrow> transport_response outcome \<times> 'w"
  share_group_session :: "panta_client \<Rightarrow> string \<Rightarrow> 'w \<Rightarrow> 'w"

text \<open>
  The daemon together with the outside world, the log of calls made so far, and the
  next unused object identity.
\<close>

record 'w system =
  daemon :: proxy_daemon
  world :: 'w
  calls :: "call list"
  next_id :: nat

text \<open>\<open>init\<close>: a fresh daemon has an empty registry and no default session.\<close>

definition init ::
  "string \<Rightarrow> string \<Rightarrow> string option \<Rightarrow> ssl_param \<Rightarrow> 'w \<Rightarrow> 'w system" where
  "init hs dir http_proxy ssl_arg w =
     \<lparr>daemon = \<lparr>homeserver = hs, data_dir = dir, proxy = http_proxy, ssl = ssl_arg,
                 client_sessions = [], default_session = None\<rparr>,
      world = w, calls = [], next_id = 0\<rparr>"

section \<open>The generic forwarder\<close>

text \<open>
  \<open>forward_request\<close>: the request is sent to the homeserver through the given
  transport with its method, path, text, query and headers (less the first \<open>Host\<close>
  header), with the daemon's forward proxy, and with the constant \<open>ssl=False\<close>.
\<close>

definition forward_request ::
  "'w env \<Rightarrow> request \<Rightarrow> http_session \<Rightarrow> 'w system \<Rightarrow> transport_response \<times> 'w system" where
  "forward_request env request session s =
     (let out = \<lparr>o_method = http_method request,
                 o_url = homeserver (daemon s) @ path request,
                 o_data = body request,
                 o_params = query request,
                 o_headers = headers_pop ''Host'' (headers request),
                 o_proxy = proxy (daemon s),
                 o_ssl = SslFalse\<rparr>;
          (resp, w') = session_request env session out (world s)
      in (resp, s\<lparr>world := w', calls := calls s @ [SessionRequest session out]\<rparr>))"

text \<open>
  \<open>router\<close>: a registered client's own transport, or the default session, built when
  there is none yet (a \<open>PantaClient\<close> and a \<open>ClientSession\<close> are truthy objects, so
  \<open>if client\<close> and \<open>if not self.default_session\<close> test for presence). The answer is
  \<open>web.Response(text=...)\<close>, with no status argument: aiohttp's default, 200.
\<close>

definition router :: "'w env \<Rightarrow> request \<Rightarrow> 'w system \<Rightarrow> response outcome \<times> 'w system" where
  "router env request s =
     (let token = get_access_token request;
          (session, s1) =
            (case map_of (client_sessions (daemon s)) token of
               Some client \<Rightarrow> (ClientTransport client, s)
             | None \<Rightarrow>
                 (case default_session (daemon s) of
                    Some sid \<Rightarrow> (DefaultSession sid, s)
                  | None \<Rightarrow>
                      (DefaultSession (next_id s),
                       s\<lparr>daemon := (daemon s)\<lparr>default_session := Some (next_id s)\<rparr>,
                         calls := calls s @ [NewClientSession (next_id s)],
                         next_id := Suc (next_id s)\<rparr>)));
          (resp, s2) = forward_request env request session s1
      in (Returned \<lparr>status = 200, resp_text = t_text resp\<rparr>, s2))"

section \<open>Local error responses\<close>

definition error_body :: "'w env \<Rightarrow> string \<Rightarrow> string \<Rightarrow> string" where
  "error_body env errcode msg =
     json_dumps env (JObj [(''errcode'', JStr errcode), (''error'', JStr msg)])"

definition missing_token :: "'w env \<Rightarrow> response" where
  "missing_token env =
     \<lparr>status = 401, resp_text = error_body env ''M_MISSING_TOKEN'' ''Missing access token.''\<rparr>"

definition unknown_token :: "'w env \<Rightarrow> response" where
  "unknown_token env =
     \<lparr>status = 401,
      resp_text = error_body env ''M_UNKNOWN_TOKEN'' ''Unrecognised access token.''\<rparr>"

definition not_json :: "'w env \<Rightarrow> response" where
  "not_json env =
     \<lparr>status = 400,
      resp_text = error_body env ''M_NOT_JSON'' ''Request did not contain valid JSON.''\<rparr>"

section \<open>Login\<close>

definition get_login_user :: "json \<Rightarrow> json outcome" where
  "get_login_user body_json =
     (case dict_get body_json ''identifier'' JNull of
        Raised e \<Rightarrow> Raised e
      | Returned identifier \<Rightarrow>
          if truthy identifier then
            (case dict_get identifier ''user'' JNull of
               Raised e \<Rightarrow> Raised e
             | Returned user \<Rightarrow>
                 if \<not> truthy user then dict_get body_json ''user'' (JStr [])
                 else Returned user)
          else dict_get body_json ''user'' (JStr []))"

text \<open>The \<open>PantaClient\<close> that \<open>login\<close> constructs, as a new object.\<close>

definition new_client :: "'w system \<Rightarrow> json \<Rightarrow> json \<Rightarrow> panta_client" where
  "new_client s user device_id =
     \<lparr>client_id = next_id s,
      pc_homeserver = homeserver (daemon s),
      pc_user = user,
      pc_device_id = device_id,
      pc_store_path = data_dir (daemon s),
      pc_ssl = ssl (daemon s),
      pc_proxy = proxy (daemon s)\<rparr>"

text \<open>
  \<open>login\<close>: \<open>request.json()\<close> is \<open>json.loads\<close> of the body text. A body that is not
  JSON (\<open>except JSONDecodeError\<close>) is answered 500, any other exception of the decoder
  leaves the handler; otherwise a client is constructed and logs in, and is
  registered under the access token of a \<open>LoginResponse\<close> (\<open>dict[key] = value\<close>
  replaces the value of a known key in place and appends a new key) or closed on any
  other response. The upstream status and text are relayed.
\<close>

definition login :: "'w env \<Rightarrow> request \<Rightarrow> 'w system \<Rightarrow> response outcome \<times> 'w system" where
  "login env request s =
     (case json_loads env (body request) of
        Raised e \<Rightarrow>
          if e = JSONDecodeError then
            (Returned \<lparr>status = 500,
                       resp_text = error_body env ''M_NOT_JSON''
                                     ''Request did not contain valid JSON.''\<rparr>, s)
          else (Raised e, s)
      | Returned body_json \<Rightarrow>
     (case get_login_user body_json of
        Raised e \<Rightarrow> (Raised e, s)
      | Returned user \<Rightarrow>
     (case dict_get body_json ''password'' (JStr []) of
        Raised e \<Rightarrow> (Raised e, s)
      | Returned password \<Rightarrow>
     (case dict_get body_json ''device_id'' (JStr []) of
        Raised e \<Rightarrow> (Raised e, s)
      | Returned device_id \<Rightarrow>
     (case dict_get body_json ''initial_device_display_name'' (JStr ''pantalaimon'') of
        Raised e \<Rightarrow> (Raised e, s)
      | Returned device_name \<Rightarrow>
          (let client = new_client s user device_id;
               s1 = s\<lparr>calls := calls s @ [NewPantaClient client], next_id := Suc (next_id s)\<rparr>;
               (resp, w2) = client_login env client password device_name (world s1);
               s2 = s1\<lparr>world := w2,
                       calls := calls s1 @ [ClientLogin client password device_name]\<rparr>;
               s3 = (case resp of
                       LoginResponse access_token tr \<Rightarrow>
                         s2\<lparr>daemon := (daemon s2)
                              \<lparr>client_sessions :=
                                 AList.update access_token client
                                   (client_sessions (daemon s2))\<rparr>\<rparr>
                     | LoginError tr \<Rightarrow>
                         s2\<lparr>world := client_close env client (world s2),
                            calls := calls s2 @ [ClientClose client]\<rparr>)
           in (Returned \<lparr>status = t_status (login_transport resp),
                         resp_text = t_text (login_transport resp)\<rparr>, s3)))))))"

section \<open>Sync\<close>

text \<open>
  The filter that \<open>sync\<close> hands to the client. \<open>json.loads\<close> raises \<open>TypeError\<close> on
  \<open>None\<close> and \<open>JSONDecodeError\<close> on text that is not JSON; both are caught
  (\<open>except (JSONDecodeError, TypeError): pass\<close>), so the variable keeps the value it
  had. Any other exception of the decoder is not caught and leaves the handler. Only an
  \<open>int\<close> is then replaced by \<open>None\<close>.
\<close>

definition decode_sync_filter :: "'w env \<Rightarrow> string option \<Rightarrow> json outcome" where
  "decode_sync_filter env raw =
     (case raw of
        None \<Rightarrow> Returned JNull
      | Some str \<Rightarrow>
          (case json_loads env str of
             Returned v \<Rightarrow> Returned (if isinstance_int v then JNull else v)
           | Raised e \<Rightarrow>
               if e = JSONDecodeError \<or> e = TypeError then Returned (JStr str)
               else Raised e))"

text \<open>The loop over the changed devices: a deleted device is skipped.\<close>

fun verify_devices :: "'w env \<Rightarrow> panta_client \<Rightarrow> device list \<Rightarrow> 'w system \<Rightarrow> 'w system" where
  "verify_devices env client [] s = s"
| "verify_devices env client (dev # devs) s =
     (if deleted dev then verify_devices env client devs s
      else verify_devices env client devs
             (s\<lparr>world := verify_device env client dev (world s),
                calls := calls s @
                  [Print (''Automatically verifying device '' @ device_ident dev),
                   VerifyDevice client dev]\<rparr>))"

text \<open>
  \<open>sync\<close>: the token checks, the filter and timeout of the query (an exception that
  the decoding of the filter lets through ends the handler before any call), the
  client's sync, the relay of a failed sync, and after a successful one the key upload, the key
  query with the verification of the changed devices, and the decrypted body.
\<close>

definition sync :: "'w env \<Rightarrow> request \<Rightarrow> 'w system \<Rightarrow> response outcome \<times> 'w system" where
  "sync env request s =
     (let access_token = get_access_token request in
      if access_token = [] then (Returned (missing_token env), s)
      else
        (case map_of (client_sessions (daemon s)) access_token of
           None \<Rightarrow> (Returned (unknown_token env), s)
         | Some client \<Rightarrow>
        (case decode_sync_filter env (query_get (query request) ''filter'') of
           Raised e \<Rightarrow> (Raised e, s)
         | Returned sync_filter \<Rightarrow>
             (let timeout = query_get (query request) ''timeout'';
                  (resp, w1) = client_sync env client timeout sync_filter (world s);
                  s1 = s\<lparr>world := w1,
                         calls := calls s @ [ClientSync client timeout sync_filter]\<rparr>
              in case resp of
                   SyncError tr txt \<Rightarrow> (Returned \<lparr>status = t_status tr, resp_text = txt\<rparr>, s1)
                 | SyncResponse tr \<Rightarrow>
                     (let s2 = (if should_upload_keys env client (world s1)
                                then s1\<lparr>world := keys_upload env client (world s1),
                                        calls := calls s1 @ [KeysUpload client]\<rparr>
                                else s1);
                          s4 = (if should_query_keys env client (world s2)
                                then (let (kq, w3) = keys_query env client (world s2);
                                          s3 = s2\<lparr>world := w3,
                                                 calls := calls s2 @ [KeysQuery client]\<rparr>
                                      in case kq of
                                           KeysQueryResponse changed \<Rightarrow>
                                             verify_devices env client
                                               (concat (map (\<lambda>(user_id, device_dict).
                                                               map snd device_dict) changed)) s3
                                         | KeysQueryError \<Rightarrow> s3)
                                else s2)
                      in case json_loads env (t_text tr) of
                           Raised e \<Rightarrow> (Raised e, s4)
                         | Returned json_response \<Rightarrow>
                             (Returned
                                \<lparr>status = t_status tr,
                                 resp_text = json_dumps env
                                   (decrypt_sync_body env client json_response (world s4))\<rparr>,
                              s4))))))"

section \<open>Sending a message\<close>

text \<open>
  \<open>send_message\<close>: the token checks, the path parameters (\<open>match_info[key]\<close> raises
  \<open>KeyError\<close> on a missing key), the body (\<open>except JSONDecodeError\<close> answers 400, any
  other exception of the decoder leaves the handler), and the send. \<open>except GroupEncryptionError\<close>
  catches that error of the first send only: the group session is shared and the send
  repeated outside any handler, so what the second send raises leaves the function.
\<close>

definition send_message ::
  "'w env \<Rightarrow> request \<Rightarrow> 'w system \<Rightarrow> response outcome \<times> 'w system" where
  "send_message env request s =
     (let access_token = get_access_token request in
      if access_token = [] then (Returned (missing_token env), s)
      else
        (case map_of (client_sessions (daemon s)) access_token of
           None \<Rightarrow> (Returned (unknown_token env), s)
         | Some client \<Rightarrow>
        (case map_of (match_info request) ''event_type'' of
           None \<Rightarrow> (Raised KeyError, s)
         | Some msgtype \<Rightarrow>
        (case map_of (match_info request) ''room_id'' of
           None \<Rightarrow> (Raised KeyError, s)
         | Some room_id \<Rightarrow>
        (case map_of (match_info request) ''txnid'' of
           None \<Rightarrow> (Raised KeyError, s)
         | Some txnid \<Rightarrow>
        (case json_loads env (body request) of
           Raised e \<Rightarrow>
             if e = JSONDecodeError then (Returned (not_json env), s) else (Raised e, s)
         | Returned content \<Rightarrow>
             (let (r1, w1) = room_send env client room_id msgtype content txnid (world s);
                  s1 = s\<lparr>world := w1,
                         calls := calls s @ [RoomSend client room_id msgtype content txnid]\<rparr>
              in case r1 of
                   Returned tr \<Rightarrow>
                     (Returned \<lparr>status = t_status tr, resp_text = t_text tr\<rparr>, s1)
                 | Raised e \<Rightarrow>
                     if e = GroupEncryptionError then
                       (let s2 = s1\<lparr>world := share_group_session env client room_id (world s1),
                                    calls := calls s1 @ [ShareGroupSession client room_id]\<rparr>;
                            (r2, w3) = room_send env client room_id msgtype content txnid
                                         (world s2);
                            s3 = s2\<lparr>world := w3,
                                   calls := calls s2 @
                                     [RoomSend client room_id msgtype content txnid]\<rparr>
                        in case r2 of
                             Returned tr \<Rightarrow>
                               (Returned \<lparr>status = t_status tr, resp_text = t_text tr\<rparr>, s3)
                           | Raised e2 \<Rightarrow> (Raised e2, s3))
                     else (Raised e, s1))))))))"

section \<open>Shutdown\<close>

text \<open>
  \<open>shutdown\<close>: every client in \<open>client_sessions.values()\<close> is closed, in the order of
  the dict; then the default session, if there is one, is closed and the attribute is
  reset to \<open>None\<close>. Nothing is removed from \<open>client_sessions\<close>.
\<close>

definition close_client :: "'w env \<Rightarrow> panta_client \<Rightarrow> 'w system \<Rightarrow> 'w system" where
  "close_client env client s =
     s\<lparr>world := client_close env client (world s), calls := calls s @ [ClientClose client]\<rparr>"

definition shutdown :: "'w env \<Rightarrow> 'w system \<Rightarrow> 'w system" where
  "shutdown env s =
     (let s1 = fold (close_client env) (map snd (client_sessions (daemon s))) s
      in case default_session (daemon s1) of
           None \<Rightarrow> s1
         | Some sid \<Rightarrow>
             s1\<lparr>world := session_close env sid (world s1),
                calls := calls s1 @ [SessionClose sid],
                daemon := (daemon s1)\<lparr>default_session := None\<rparr>\<rparr>)"

section \<open>Serving requests\<close>

text \<open>
  The routes that \<open>init\<close> registers: the login, sync and send routes, and the catch-all
  route for everything else. A served request is tagged with the route it matched.
\<close>

datatype served = ToLogin request | ToSync request | ToSend request | ToRouter request

fun handle :: "'w env \<Rightarrow> served \<Rightarrow> 'w system \<Rightarrow> response outcome \<times> 'w system" where
  "handle env (ToLogin r) s = login env r s"
| "handle env (ToSync r) s = sync env r s"
| "handle env (ToSend r) s = send_message env r s"
| "handle env (ToRouter r) s = router env r s"

fun serve :: "'w env \<Rightarrow> served list \<Rightarrow> 'w system \<Rightarrow> 'w system" where
  "serve env [] s = s"
| "serve env (r # rs) s = serve env rs (snd (handle env r s))"

section \<open>A sample deployment\<close>

text \<open>
  A concrete environment on which the handlers can be run. Its \<open>json.dumps\<close> writes
  Python's default separators (no escapes in strings; a float as mantissa and exponent);
  its \<open>json.loads\<close> raises \<open>RecursionError\<close> on a text that opens a thousand lists or
  more, agrees with Python's on the texts listed, and rejects the others used below,
  which are not JSON. The homeserver answers every forwarded request with
  404, accepts the password of \<open>alice\<close> only, and the outside state counts the
  group sessions shared so far: sending fails with the group-session-missing error
  while there is none, and always in the room \<open>!dead:example.org\<close>.
\<close>

fun digits :: "nat \<Rightarrow> string" where
  "digits n =
     (if n < 10 then [''0123456789'' ! n]
      else digits (n div 10) @ [''0123456789'' ! (n mod 10)])"

fun join :: "string \<Rightarrow> string list \<Rightarrow> string" where
  "join sep [] = []"
| "join sep [x] = x"
| "join sep (x # y # ys) = x @ sep @ join sep (y # ys)"

primrec sample_dumps :: "json \<Rightarrow> string" where
  "sample_dumps JNull = ''null''"
| "sample_dumps (JBool b) = (if b then ''true'' else ''false'')"
| "sample_dumps (JInt i) = (if i < 0 then ''-'' else []) @ digits (nat \<bar>i\<bar>)"
| "sample_dumps (JFloat m e) =
     (if m < 0 then ''-'' else []) @ digits (nat \<bar>m\<bar>) @ ''p'' @
     (if e < 0 then ''-'' else []) @ digits (nat \<bar>e\<bar>)"
| "sample_dumps (JStr s) = [CHR 0x22] @ s @ [CHR 0x22]"
| "sample_dumps (JList xs) = ''['' @ join '', '' (map sample_dumps xs) @ '']''"
| "sample_dumps (JObj kvs) =
     ''{'' @ join '', '' (map (\<lambda>(k, v). [CHR 0x22] @ k @ [CHR 0x22] @ '': '' @ v)
                           (map (map_prod id sample_dumps) kvs)) @ ''}''"

definition alice_body :: string where
  \<open>alice_body = ''{"user": "alice", "password": "p"}''\<close>

definition mallory_body :: string where
  \<open>mallory_body = ''{"user": "mallory", "password": "x"}''\<close>

definition message_body :: string where
  \<open>message_body = ''{"msgtype": "m.text", "body": "hello"}''\<close>

definition not_found_text :: string where
  \<open>not_found_text = ''{"errcode": "M_NOT_FOUND", "error": "No resource was found."}''\<close>

definition deeply_nested :: "string \<Rightarrow> bool" where
  "deeply_nested str = (1000 \<le> length (takeWhile (\<lambda>c. c = CHR ''['') str))"

definition sample_table :: "string \<Rightarrow> json option" where
  "sample_table str =
     map_of
       [(''42'', JInt 42),
        (''true'', JBool True),
        (''null'', JNull),
        (''[1]'', JList [JInt 1]),
        (''{}'', JObj []),
        (alice_body, JObj [(''user'', JStr ''alice''), (''password'', JStr ''p'')]),
        (mallory_body, JObj [(''user'', JStr ''mallory''), (''password'', JStr ''x'')]),
        (message_body, JObj [(''msgtype'', JStr ''m.text''), (''body'', JStr ''hello'')])]
       str"

definition sample_loads :: "string \<Rightarrow> json outcome" where
  "sample_loads str =
     (if deeply_nested str then Raised RecursionError
      else case sample_table str of
             Some v \<Rightarrow> Returned v
           | None \<Rightarrow> Raised JSONDecodeError)"

definition sample_env :: "nat env" where
  "sample_env =
     \<lparr>json_loads = sample_loads,
      json_dumps = sample_dumps,
      session_request = (\<lambda>session out w. (\<lparr>t_status = 404, t_text = not_found_text\<rparr>, w)),
      session_close = (\<lambda>sid w. w),
      client_login = (\<lambda>client password device_name w.
         (if pc_user client = JStr ''alice'' \<and> password = JStr ''p''
          then LoginResponse ''abc'' \<lparr>t_status = 200, t_text = ''{}''\<rparr>
          else LoginError \<lparr>t_status = 403, t_text = ''{}''\<rparr>, w)),
      client_close = (\<lambda>client w. w),
      client_sync = (\<lambda>client timeout sync_filter w.
         (SyncResponse \<lparr>t_status = 200, t_text = ''{}''\<rparr>, w)),
      should_upload_keys = (\<lambda>client w. False),
      keys_upload = (\<lambda>client w. w),
      should_query_keys = (\<lambda>client w. False),
      keys_query = (\<lambda>client w. (KeysQueryError, w)),
      verify_device = (\<lambda>client dev w. w),
      decrypt_sync_body = (\<lambda>client j w. j),
      room_send = (\<lambda>client room_id msgtype content txnid w.
         (if w = 0 \<or> room_id = ''!dead:example.org'' then Raised GroupEncryptionError
          else Returned \<lparr>t_status = 200, t_text = ''{}''\<rparr>, w)),
      share_group_session = (\<lambda>client room_id w. Suc w)\<rparr>"

text \<open>A daemon started with a forward proxy and with certificate verification on.\<close>

definition sample_system :: "nat system" where
  "sample_system =
     init ''https://example.org'' ''/var/lib/pantalaimon'' (Some ''http://proxy.local:3128'')
       SslNone 0"

text \<open>The client that the first login on \<open>sample_system\<close> constructs for \<open>alice\<close>.\<close>

definition alice_client :: panta_client where
  "alice_client =
     \<lparr>client_id = 0, pc_homeserver = ''https://example.org'', pc_user = JStr ''alice'',
      pc_device_id = JStr [], pc_store_path = ''/var/lib/pantalaimon'', pc_ssl = SslNone,
      pc_proxy = Some ''http://proxy.local:3128''\<rparr>"

definition alice_login :: request where
  "alice_login =
     \<lparr>http_method = ''POST'', path = ''/_matrix/client/r0/login'', query = [],
      headers = [(''Host'', ''localhost:8009'')], match_info = [], body = alice_body\<rparr>"

definition mallory_login :: request where
  "mallory_login =
     \<lparr>http_method = ''POST'', path = ''/_matrix/client/r0/login'', query = [],
      headers = [(''Host'', ''localhost:8009'')], match_info = [], body = mallory_body\<rparr>"

text \<open>The deployment after \<open>alice\<close> has logged in: her token \<open>abc\<close> is registered.\<close>

definition alice_system :: "nat system" where
  "alice_system =
     \<lparr>daemon = \<lparr>homeserver = ''https://example.org'', data_dir = ''/var/lib/pantalaimon'',
                 proxy = Some ''http://proxy.local:3128'', ssl = SslNone,
                 client_sessions = [(''abc'', alice_client)], default_session = None\<rparr>,
      world = 0,
      calls = [NewPantaClient alice_client,
               ClientLogin alice_client (JStr ''p'') (JStr ''pantalaimon'')],
      next_id = 1\<rparr>"

text \<open>An unmatched request that carries its token in the Authorization header.\<close>

definition bearer_request :: request where
  "bearer_request =
     \<lparr>http_method = ''GET'', path = ''/_matrix/client/r0/joined_rooms'', query = [],
      headers = [(''Host'', ''localhost:8009''), (''Authorization'', ''Bearer abcde'')],
      match_info = [], body = []\<rparr>"

text \<open>
  The claim's reading of the header: exactly one leading literal prefix is removed and
  the rest of the value is kept; a value without the prefix is kept whole.
\<close>

definition remove_prefix_once :: "string \<Rightarrow> string \<Rightarrow> string" where
  "remove_prefix_once pre s =
     (if take (length pre) s = pre then drop (length pre) s else s)"

text \<open>Requests without a token, with an unregistered token, and with a malformed body.\<close>

definition no_token_request :: request where
  "no_token_request =
     \<lparr>http_method = ''GET'', path = ''/_matrix/client/r0/sync'',
      query = [(''timeout'', ''30000'')],
      headers = [(''Host'', ''localhost:8009'')], match_info = [], body = []\<rparr>"

definition stranger_sync :: request where
  "stranger_sync =
     \<lparr>http_method = ''GET'', path = ''/_matrix/client/r0/sync'',
      query = [(''access_token'', ''nope''), (''timeout'', ''30000'')],
      headers = [(''Host'', ''localhost:8009'')], match_info = [], body = []\<rparr>"

definition stranger_send :: request where
  "stranger_send =
     \<lparr>http_method = ''PUT'',
      path = ''/_matrix/client/r0/rooms/!room:example.org/send/m.room.message/1'',
      query = [(''access_token'', ''nope'')],
      headers = [(''Host'', ''localhost:8009'')],
      match_info = [(''room_id'', ''!room:example.org''),
                    (''event_type'', ''m.room.message''), (''txnid'', ''1'')],
      body = ''{not json''\<rparr>"

definition alice_bad_send :: request where
  "alice_bad_send = stranger_send\<lparr>query := [(''access_token'', ''abc'')]\<rparr>"




text \<open>Later requests of \<open>alice\<close> with her token in the query and in the Authorization
  header, and the login of \<open>mallory\<close>, which the homeserver refuses.\<close>

definition alice_query_request :: request where
  "alice_query_request =
     \<lparr>http_method = ''GET'', path = ''/_matrix/client/r0/joined_rooms'',
      query = [(''access_token'', ''abc'')],
      headers = [(''Host'', ''localhost:8009'')], match_info = [], body = []\<rparr>"

definition alice_header_request :: request where
  "alice_header_request =
     \<lparr>http_method = ''GET'', path = ''/_matrix/client/r0/joined_rooms'', query = [],
      headers = [(''Host'', ''localhost:8009''), (''Authorization'', ''Bearer abc'')],
      match_info = [], body = []\<rparr>"

definition mallory_client :: panta_client where
  "mallory_client = alice_client\<lparr>pc_user := JStr ''mallory''\<rparr>"

definition alice_json :: json where
  "alice_json = JObj [(''user'', JStr ''alice''), (''password'', JStr ''p'')]"

definition mallory_json :: json where
  "mallory_json = JObj [(''user'', JStr ''mallory''), (''password'', JStr ''x'')]"

text \<open>Sync requests of \<open>alice\<close>, with and without a filter.\<close>

definition sync_with_filter :: "string \<Rightarrow> request" where
  "sync_with_filter f =
     \<lparr>http_method = ''GET'', path = ''/_matrix/client/r0/sync'',
      query = [(''access_token'', ''abc''), (''filter'', f)],
      headers = [(''Host'', ''localhost:8009'')], match_info = [], body = []\<rparr>"

definition deep_filter :: string where
  "deep_filter = replicate 1000 (CHR ''['')"

definition sync_without_filter :: request where
  "sync_without_filter =
     \<lparr>http_method = ''GET'', path = ''/_matrix/client/r0/sync'',
      query = [(''access_token'', ''abc'')],
      headers = [(''Host'', ''localhost:8009'')], match_info = [], body = []\<rparr>"

text \<open>The deployment of \<open>alice\<close> once the default session has been built as well.\<close>

definition busy_system :: "nat system" where
  "busy_system =
     alice_system\<lparr>daemon := (daemon alice_system)\<lparr>default_session := Some 1\<rparr>,
                  calls := calls alice_system @ [NewClientSession 1],
                  next_id := 2\<rparr>"

text \<open>
  What the call log says about transports: the default sessions constructed, the
  transport of every forwarded request, and among these the default sessions used.
\<close>

definition default_sessions_built :: "call list \<Rightarrow> nat list" where
  "default_sessions_built cs =
     concat (map (\<lambda>c. case c of NewClientSession sid \<Rightarrow> [sid] | _ \<Rightarrow> []) cs)"

definition sessions_used :: "call list \<Rightarrow> http_session list" where
  "sessions_used cs =
     concat (map (\<lambda>c. case c of SessionRequest session out \<Rightarrow> [session] | _ \<Rightarrow> []) cs)"

definition default_sessions_used :: "call list \<Rightarrow> nat list" where
  "default_sessions_used cs =
     concat (map (\<lambda>session. case session of DefaultSession sid \<Rightarrow> [sid] | _ \<Rightarrow> [])
               (sessions_used cs))"

text \<open>Requests served in a row, from clients with and without a registered token.\<close>

definition sample_traffic :: "served list" where
  "sample_traffic =
     [ToRouter bearer_request, ToRouter no_token_request, ToLogin alice_login,
      ToRouter alice_query_request, ToSync stranger_sync, ToRouter bearer_request]"

chapter \<open>Properties\<close>

section \<open>Evaluation rules for the sample deployment\<close>

lemma sample_env_fields [simp]:
  "json_loads sample_env = sample_loads"
  "json_dumps sample_env = sample_dumps"
  "session_request sample_env session out w = (\<lparr>t_status = 404, t_text = not_found_text\<rparr>, w)"
  "session_close sample_env sid w = w"
  "client_login sample_env client password device_name w =
     (if pc_user client = JStr ''alice'' \<and> password = JStr ''p''
      then LoginResponse ''abc'' \<lparr>t_status = 200, t_text = ''{}''\<rparr>
      else LoginError \<lparr>t_status = 403, t_text = ''{}''\<rparr>, w)"
  "client_close sample_env client w = w"
  "client_sync sample_env client timeout sync_filter w =
     (SyncResponse \<lparr>t_status = 200, t_text = ''{}''\<rparr>, w)"
  "should_upload_keys sample_env client w = False"
  "should_query_keys sample_env client w = False"
  "decrypt_sync_body sample_env client j w = j"
  "room_send sample_env client room_id msgtype content txnid w =
     (if w = 0 \<or> room_id = ''!dead:example.org'' then Raised GroupEncryptionError
      else Returned \<lparr>t_status = 200, t_text = ''{}''\<rparr>, w)"
  "share_group_session sample_env client room_id w = Suc w"
  by (simp_all add: sample_env_def)

lemma alice_login_is_alice_system:
  "login sample_env alice_login sample_system =
     (Returned \<lparr>status = 200, resp_text = ''{}''\<rparr>, alice_system)"
  by (simp add: login_def alice_login_def sample_system_def init_def sample_loads_def sample_table_def deeply_nested_def
      alice_body_def mallory_body_def message_body_def get_login_user_def new_client_def
      alice_client_def alice_system_def Let_def)

section \<open>Credential extraction (C2)\<close>

lemma token_from_query:
  "query_get (query request) ''access_token'' = Some t \<Longrightarrow> t \<noteq> [] \<Longrightarrow>
     get_access_token request = t"
  by (simp add: get_access_token_def)

lemma token_absent:
  "query_get (query request) ''access_token'' = None \<Longrightarrow>
   headers_get (headers request) ''Authorization'' = None \<Longrightarrow>
     get_access_token request = []"
  by (simp add: get_access_token_def py_strip_def)

text \<open>
  C2. The claim: without a query token, extraction returns the Authorization header with
  exactly one leading \<open>Bearer \<close> prefix removed and the rest intact. The code calls
  \<open>strip("Bearer ")\<close>, which removes characters of the set \<open>{B, e, a, r, space}\<close> from
  both ends: for the header \<open>Bearer abcde\<close> it returns \<open>bcd\<close>, where the claim's prefix
  removal gives \<open>abcde\<close>.
\<close>

theorem get_access_token_strips_characters:
  "get_access_token bearer_request = ''bcd''
   \<and> remove_prefix_once ''Bearer '' ''Bearer abcde'' = ''abcde''"
  by (simp add: bearer_request_def get_access_token_def query_get_def headers_get_def
      lower_str_def lower_char_def py_strip_def remove_prefix_once_def)

section \<open>The generic forwarder (C1, C8)\<close>

lemma router_status:
  "fst (router env request s) = Returned r \<Longrightarrow> status r = 200"
  by (auto simp: router_def Let_def split: prod.splits)

lemma forward_request_ssl:
  "calls (snd (forward_request env request session s)) =
     calls s @ [SessionRequest session out] \<Longrightarrow> o_ssl out = SslFalse \<and> o_proxy out = proxy (daemon s)"
  by (auto simp: forward_request_def Let_def split: prod.splits)

text \<open>
  C1. The claim: the generic forwarder's response has the status and the body of the
  upstream response. The code builds \<open>web.Response(text=...)\<close> without a status, so the
  answer is always 200: here the homeserver answers 404 and the client is told 200 (the
  body is relayed).
\<close>

theorem router_drops_upstream_status:
  "fst (router sample_env bearer_request sample_system) =
     Returned \<lparr>status = 200, resp_text = not_found_text\<rparr>
   \<and> fst (forward_request sample_env bearer_request (DefaultSession 0) sample_system) =
     \<lparr>t_status = 404, t_text = not_found_text\<rparr>"
  by (simp add: router_def forward_request_def sample_system_def init_def Let_def
      split: option.splits)

text \<open>
  C8. The claim: the forwarder's outbound request applies the configured forward proxy
  and the configured TLS-verification setting. The code passes \<open>proxy=self.proxy\<close> but
  the constant \<open>ssl=False\<close>: on a daemon configured to verify certificates
  (\<open>ssl = None\<close>), the outbound request still disables verification.
\<close>

theorem forward_request_disables_tls_verification:
  "ssl (daemon sample_system) = SslNone
   \<and> calls (snd (router sample_env bearer_request sample_system)) =
       [NewClientSession 0,
        SessionRequest (DefaultSession 0)
          \<lparr>o_method = ''GET'',
           o_url = ''https://example.org/_matrix/client/r0/joined_rooms'',
           o_data = [], o_params = [],
           o_headers = [(''Authorization'', ''Bearer abcde'')],
           o_proxy = Some ''http://proxy.local:3128'',
           o_ssl = SslFalse\<rparr>]"
  by (simp add: router_def forward_request_def sample_system_def init_def Let_def
      bearer_request_def get_access_token_def query_get_def headers_get_def
      lower_str_def lower_char_def py_strip_def)

section \<open>Token checks of sync and send (C4, C10)\<close>

lemma token_no_token_request: "get_access_token no_token_request = []"
  by (simp add: no_token_request_def get_access_token_def query_get_def headers_get_def
      lower_str_def lower_char_def py_strip_def)

lemma token_stranger_sync: "get_access_token stranger_sync = ''nope''"
  by (simp add: stranger_sync_def get_access_token_def query_get_def)

lemma token_stranger_send: "get_access_token stranger_send = ''nope''"
  by (simp add: stranger_send_def get_access_token_def query_get_def)

lemma token_alice_bad_send: "get_access_token alice_bad_send = ''abc''"
  by (simp add: alice_bad_send_def stranger_send_def get_access_token_def query_get_def)

lemma alice_registry:
  "map_of (client_sessions (daemon alice_system)) ''abc'' = Some alice_client"
  "map_of (client_sessions (daemon alice_system)) ''nope'' = None"
  by (simp_all add: alice_system_def)

lemma sample_loads_malformed: "sample_loads ''{not json'' = Raised JSONDecodeError"
  by (simp add: sample_loads_def sample_table_def deeply_nested_def alice_body_def mallory_body_def message_body_def)

text \<open>
  C4. A sync or send request whose extracted credential is empty is answered 401 with
  errcode \<open>M_MISSING_TOKEN\<close>; one whose non-empty credential is not a key of the
  registry is answered 401 with errcode \<open>M_UNKNOWN_TOKEN\<close>. In both cases the handler
  returns the system as it found it: no call is logged, and neither the outside world
  nor the daemon has changed.
\<close>

theorem token_checks_precede_every_call:
  "(get_access_token request = [] \<longrightarrow>
      sync env request s =
        (Returned \<lparr>status = 401,
                   resp_text = json_dumps env
                     (JObj [(''errcode'', JStr ''M_MISSING_TOKEN''),
                            (''error'', JStr ''Missing access token.'')])\<rparr>, s)
    \<and> send_message env request s =
        (Returned \<lparr>status = 401,
                   resp_text = json_dumps env
                     (JObj [(''errcode'', JStr ''M_MISSING_TOKEN''),
                            (''error'', JStr ''Missing access token.'')])\<rparr>, s))
   \<and> (get_access_token request \<noteq> [] \<and>
      map_of (client_sessions (daemon s)) (get_access_token request) = None \<longrightarrow>
      sync env request s =
        (Returned \<lparr>status = 401,
                   resp_text = json_dumps env
                     (JObj [(''errcode'', JStr ''M_UNKNOWN_TOKEN''),
                            (''error'', JStr ''Unrecognised access token.'')])\<rparr>, s)
    \<and> send_message env request s =
        (Returned \<lparr>status = 401,
                   resp_text = json_dumps env
                     (JObj [(''errcode'', JStr ''M_UNKNOWN_TOKEN''),
                            (''error'', JStr ''Unrecognised access token.'')])\<rparr>, s))"
  by (simp add: sync_def send_message_def missing_token_def unknown_token_def error_body_def)

theorem token_checks_precede_every_call_witness:
  "sync sample_env no_token_request alice_system =
     (Returned \<lparr>status = 401,
                resp_text = sample_dumps
                  (JObj [(''errcode'', JStr ''M_MISSING_TOKEN''),
                         (''error'', JStr ''Missing access token.'')])\<rparr>, alice_system)
   \<and> send_message sample_env no_token_request alice_system =
     (Returned \<lparr>status = 401,
                resp_text = sample_dumps
                  (JObj [(''errcode'', JStr ''M_MISSING_TOKEN''),
                         (''error'', JStr ''Missing access token.'')])\<rparr>, alice_system)
   \<and> sync sample_env stranger_sync alice_system =
     (Returned \<lparr>status = 401,
                resp_text = sample_dumps
                  (JObj [(''errcode'', JStr ''M_UNKNOWN_TOKEN''),
                         (''error'', JStr ''Unrecognised access token.'')])\<rparr>, alice_system)
   \<and> send_message sample_env stranger_send alice_system =
     (Returned \<lparr>status = 401,
                resp_text = sample_dumps
                  (JObj [(''errcode'', JStr ''M_UNKNOWN_TOKEN''),
                         (''error'', JStr ''Unrecognised access token.'')])\<rparr>, alice_system)"
  using token_checks_precede_every_call [of no_token_request sample_env alice_system]
        token_checks_precede_every_call [of stranger_sync sample_env alice_system]
        token_checks_precede_every_call [of stranger_send sample_env alice_system]
  by (simp add: token_no_token_request token_stranger_sync token_stranger_send
      alice_registry)

lemma alice_bad_send_answer:
  "fst (send_message sample_env alice_bad_send alice_system) =
     Returned \<lparr>status = 400,
               resp_text = sample_dumps
                 (JObj [(''errcode'', JStr ''M_NOT_JSON''),
                        (''error'', JStr ''Request did not contain valid JSON.'')])\<rparr>"
  by (simp add: send_message_def alice_bad_send_def stranger_send_def get_access_token_def
      query_get_def alice_system_def not_json_def error_body_def sample_loads_malformed)

text \<open>
  C10. In the send handler the token checks come before the body is parsed: a request
  with a token that is not registered is answered 401 \<open>M_UNKNOWN_TOKEN\<close> also when its
  body is not JSON, and the 400 \<open>M_NOT_JSON\<close> answer is only ever given to a request
  whose token is registered.
\<close>

theorem send_checks_token_before_body:
  "(get_access_token request \<noteq> [] \<and>
    map_of (client_sessions (daemon s)) (get_access_token request) = None \<and>
    json_loads env (body request) = Raised JSONDecodeError \<longrightarrow>
      send_message env request s =
        (Returned \<lparr>status = 401,
                   resp_text = json_dumps env
                     (JObj [(''errcode'', JStr ''M_UNKNOWN_TOKEN''),
                            (''error'', JStr ''Unrecognised access token.'')])\<rparr>, s))
   \<and> (fst (send_message env request s) =
        Returned \<lparr>status = 400,
                  resp_text = json_dumps env
                    (JObj [(''errcode'', JStr ''M_NOT_JSON''),
                           (''error'', JStr ''Request did not contain valid JSON.'')])\<rparr> \<longrightarrow>
      get_access_token request \<noteq> [] \<and>
      map_of (client_sessions (daemon s)) (get_access_token request) \<noteq> None)"
  by (auto simp: send_message_def missing_token_def unknown_token_def error_body_def Let_def
       split: option.splits if_splits prod.splits outcome.splits)

theorem send_checks_token_before_body_witness:
  "json_loads sample_env (body stranger_send) = Raised JSONDecodeError
   \<and> send_message sample_env stranger_send alice_system =
       (Returned \<lparr>status = 401,
                  resp_text = sample_dumps
                    (JObj [(''errcode'', JStr ''M_UNKNOWN_TOKEN''),
                           (''error'', JStr ''Unrecognised access token.'')])\<rparr>, alice_system)
   \<and> fst (send_message sample_env alice_bad_send alice_system) =
        Returned \<lparr>status = 400,
                  resp_text = sample_dumps
                    (JObj [(''errcode'', JStr ''M_NOT_JSON''),
                           (''error'', JStr ''Request did not contain valid JSON.'')])\<rparr>
   \<and> map_of (client_sessions (daemon alice_system)) (get_access_token alice_bad_send) =
        Some alice_client"
proof -
  have malformed: "sample_loads (body stranger_send) = Raised JSONDecodeError"
    by (simp add: stranger_send_def sample_loads_malformed)
  show ?thesis
    using send_checks_token_before_body [of stranger_send alice_system sample_env]
          send_checks_token_before_body [of alice_bad_send alice_system sample_env]
    by (simp add: malformed token_stranger_send token_alice_bad_send alice_registry
        alice_bad_send_answer)
qed

section \<open>The bounded retry of send (C3)\<close>







section \<open>Login and the registry (C5)\<close>

lemma router_registered:
  "map_of (client_sessions (daemon s)) (get_access_token request) = Some client \<Longrightarrow>
     router env request s =
       (case forward_request env request (ClientTransport client) s of
          (resp, s2) \<Rightarrow> (Returned \<lparr>status = 200, resp_text = t_text resp\<rparr>, s2))"
  by (simp add: router_def Let_def split: prod.splits)

lemma alice_login_facts:
  "json_loads sample_env (body alice_login) = Returned alice_json"
  "get_login_user alice_json = Returned (JStr ''alice'')"
  "dict_get alice_json ''password'' (JStr []) = Returned (JStr ''p'')"
  "dict_get alice_json ''device_id'' (JStr []) = Returned (JStr [])"
  "dict_get alice_json ''initial_device_display_name'' (JStr ''pantalaimon'') =
     Returned (JStr ''pantalaimon'')"
  by (simp_all add: alice_login_def alice_json_def sample_loads_def sample_table_def deeply_nested_def alice_body_def
      mallory_body_def message_body_def get_login_user_def)

lemma mallory_login_facts:
  "json_loads sample_env (body mallory_login) = Returned mallory_json"
  "get_login_user mallory_json = Returned (JStr ''mallory'')"
  "dict_get mallory_json ''password'' (JStr []) = Returned (JStr ''x'')"
  "dict_get mallory_json ''device_id'' (JStr []) = Returned (JStr [])"
  "dict_get mallory_json ''initial_device_display_name'' (JStr ''pantalaimon'') =
     Returned (JStr ''pantalaimon'')"
  by (simp_all add: mallory_login_def mallory_json_def sample_loads_def sample_table_def deeply_nested_def alice_body_def
      mallory_body_def message_body_def get_login_user_def)

lemma sample_new_clients:
  "new_client sample_system (JStr ''alice'') (JStr []) = alice_client"
  "new_client sample_system (JStr ''mallory'') (JStr []) = mallory_client"
  by (simp_all add: new_client_def sample_system_def init_def alice_client_def
      mallory_client_def)

lemma token_alice_query_request: "get_access_token alice_query_request = ''abc''"
  by (simp add: alice_query_request_def get_access_token_def query_get_def)

lemma sample_clients_users:
  "pc_user alice_client = JStr ''alice''"
  "pc_user mallory_client = JStr ''mallory''"
  by (simp_all add: alice_client_def mallory_client_def)

text \<open>
  What holds of login. For a login whose body decodes and whose fields can be read:
  when the client's credential exchange returns a \<open>LoginResponse\<close> with access token
  \<open>t\<close>, the registry afterwards maps \<open>t\<close> to the client just constructed, that client
  is not closed, and the router forwards every later request whose extracted credential
  is \<open>t\<close> through that client's transport. When the exchange returns anything else,
  the client is closed and the registry is as it was before.
\<close>

lemma login_registers_token_on_success:
  assumes "json_loads env (body request) = Returned body_json"
    and "get_login_user body_json = Returned user"
    and "dict_get body_json ''password'' (JStr []) = Returned password"
    and "dict_get body_json ''device_id'' (JStr []) = Returned device_id"
    and "dict_get body_json ''initial_device_display_name'' (JStr ''pantalaimon'') =
           Returned device_name"
  shows
    "(case fst (client_login env (new_client s user device_id) password device_name (world s)) of
        LoginResponse t tr \<Rightarrow>
          map_of (client_sessions (daemon (snd (login env request s)))) t =
            Some (new_client s user device_id)
          \<and> calls (snd (login env request s)) =
              calls s @ [NewPantaClient (new_client s user device_id),
                         ClientLogin (new_client s user device_id) password device_name]
          \<and> (get_access_token later = t \<longrightarrow>
               router env later (snd (login env request s)) =
                 (case forward_request env later
                         (ClientTransport (new_client s user device_id))
                         (snd (login env request s)) of
                    (resp, s2) \<Rightarrow> (Returned \<lparr>status = 200, resp_text = t_text resp\<rparr>, s2)))
      | LoginError tr \<Rightarrow>
          client_sessions (daemon (snd (login env request s))) = client_sessions (daemon s)
          \<and> calls (snd (login env request s)) =
              calls s @ [NewPantaClient (new_client s user device_id),
                         ClientLogin (new_client s user device_id) password device_name,
                         ClientClose (new_client s user device_id)])"
proof (cases "fst (client_login env (new_client s user device_id) password device_name (world s))")
  case (LoginResponse t tr)
  have reg: "map_of (client_sessions (daemon (snd (login env request s)))) t =
            Some (new_client s user device_id)"
    using assms LoginResponse
    by (simp add: login_def Let_def split_beta update_conv')
  have log: "calls (snd (login env request s)) =
              calls s @ [NewPantaClient (new_client s user device_id),
                         ClientLogin (new_client s user device_id) password device_name]"
    using assms LoginResponse
    by (simp add: login_def Let_def split_beta)
  show ?thesis
    using LoginResponse reg log by (simp add: router_registered)
next
  case (LoginError tr)
  then show ?thesis
    using assms by (simp add: login_def Let_def split_beta)
qed


lemma login_registers_token_on_success_example:
  "map_of (client_sessions (daemon (snd (login sample_env alice_login sample_system))))
     ''abc'' = Some alice_client
   \<and> calls (snd (router sample_env alice_query_request
                   (snd (login sample_env alice_login sample_system)))) =
       [NewPantaClient alice_client,
        ClientLogin alice_client (JStr ''p'') (JStr ''pantalaimon''),
        SessionRequest (ClientTransport alice_client)
          \<lparr>o_method = ''GET'',
           o_url = ''https://example.org/_matrix/client/r0/joined_rooms'',
           o_data = [], o_params = [(''access_token'', ''abc'')],
           o_headers = [],
           o_proxy = Some ''http://proxy.local:3128'',
           o_ssl = SslFalse\<rparr>]
   \<and> client_sessions (daemon (snd (login sample_env mallory_login sample_system))) = []
   \<and> calls (snd (login sample_env mallory_login sample_system)) =
       [NewPantaClient mallory_client,
        ClientLogin mallory_client (JStr ''x'') (JStr ''pantalaimon''),
        ClientClose mallory_client]"
proof -
  note accepted =
    login_registers_token_on_success
      [OF alice_login_facts, where s = sample_system and later = alice_query_request]
  note refused =
    login_registers_token_on_success
      [OF mallory_login_facts, where s = sample_system and later = alice_query_request]
  have start: "world sample_system = 0" "calls sample_system = []"
    "client_sessions (daemon sample_system) = []"
    by (simp_all add: sample_system_def init_def)
  have fwd: "calls (snd (forward_request sample_env alice_query_request
                            (ClientTransport alice_client) s)) =
               calls s @ [SessionRequest (ClientTransport alice_client)
          \<lparr>o_method = ''GET'',
           o_url = homeserver (daemon s) @ ''/_matrix/client/r0/joined_rooms'',
           o_data = [], o_params = [(''access_token'', ''abc'')],
           o_headers = [],
           o_proxy = proxy (daemon s),
           o_ssl = SslFalse\<rparr>]" for s :: "nat system"
    by (simp add: forward_request_def alice_query_request_def lower_str_def lower_char_def)
  have d: "homeserver (daemon (snd (login sample_env alice_login sample_system))) =
             ''https://example.org''"
    "proxy (daemon (snd (login sample_env alice_login sample_system))) =
             Some ''http://proxy.local:3128''"
    by (simp_all add: alice_login_is_alice_system alice_system_def)
  show ?thesis
    using accepted refused
    by (simp add: sample_new_clients sample_clients_users token_alice_query_request start
        split_beta fwd d)
qed

text \<open>
  C5. The claim: after a login that succeeds with access token \<open>t\<close>, a subsequent
  request bearing \<open>t\<close> resolves to the new Session and not to the anonymous transport.
  The login of \<open>alice\<close> registers her client under \<open>abc\<close>. Her next request bears the
  token as the header \<open>Authorization: Bearer abc\<close>; the extraction strips it to
  \<open>bc\<close>, which is no key of the registry, and the router builds the default session
  and forwards the request through it.
\<close>

theorem bearer_header_misses_registered_session:
  "login sample_env alice_login sample_system =
     (Returned \<lparr>status = 200, resp_text = ''{}''\<rparr>, alice_system)
   \<and> map_of (client_sessions (daemon alice_system)) ''abc'' = Some alice_client
   \<and> headers_get (headers alice_header_request) ''Authorization'' = Some ''Bearer abc''
   \<and> get_access_token alice_header_request = ''bc''
   \<and> sessions_used (calls (snd (router sample_env alice_header_request alice_system))) =
       [DefaultSession 1]
   \<and> default_sessions_built
       (calls (snd (router sample_env alice_header_request alice_system))) = [1]"
proof -
  have header: "headers_get (headers alice_header_request) ''Authorization'' =
                  Some ''Bearer abc''"
    by (simp add: alice_header_request_def headers_get_def lower_str_def lower_char_def)
  have token: "get_access_token alice_header_request = ''bc''"
    by (simp add: alice_header_request_def get_access_token_def query_get_def
        headers_get_def lower_str_def lower_char_def py_strip_def)
  have routed: "calls (snd (router sample_env alice_header_request alice_system)) =
      calls alice_system @
        [NewClientSession 1,
         SessionRequest (DefaultSession 1)
           \<lparr>o_method = ''GET'',
            o_url = ''https://example.org/_matrix/client/r0/joined_rooms'',
            o_data = [], o_params = [],
            o_headers = [(''Authorization'', ''Bearer abc'')],
            o_proxy = Some ''http://proxy.local:3128'',
            o_ssl = SslFalse\<rparr>]"
    by (simp add: router_def token forward_request_def Let_def)
       (simp add: alice_system_def alice_header_request_def lower_str_def lower_char_def)
  show ?thesis
    by (simp add: alice_login_is_alice_system alice_registry header token routed
        sessions_used_def default_sessions_built_def)
       (simp add: alice_system_def)
qed

section \<open>The filter of sync (C6)\<close>

lemma verify_devices_calls:
  "calls (verify_devices env client devs s) =
     calls s @
       concat (map (\<lambda>dev. if deleted dev then []
                          else [Print (''Automatically verifying device '' @ device_ident dev),
                                VerifyDevice client dev]) devs)"
  by (induction devs arbitrary: s) simp_all

lemma sync_first_call:
  assumes "get_access_token request \<noteq> []"
    and "map_of (client_sessions (daemon s)) (get_access_token request) = Some client"
    and "decode_sync_filter env (query_get (query request) ''filter'') = Returned f"
  shows "take (Suc (length (calls s))) (calls (snd (sync env request s))) =
           calls s @ [ClientSync client (query_get (query request) ''timeout'') f]"
  using assms
  by (simp add: sync_def Let_def split_beta verify_devices_calls
      split: sync_result.splits option.splits keys_query_result.splits outcome.splits)

lemma sync_decoder_raises:
  assumes "get_access_token request \<noteq> []"
    and "map_of (client_sessions (daemon s)) (get_access_token request) = Some client"
    and "decode_sync_filter env (query_get (query request) ''filter'') = Raised e"
  shows "sync env request s = (Raised e, s)"
  using assms by (simp add: sync_def)

lemma sample_loads_filters:
  "sample_loads ''not-json'' = Raised JSONDecodeError"
  "sample_loads ''42'' = Returned (JInt 42)"
  "sample_loads ''true'' = Returned (JBool True)"
  "sample_loads ''[1]'' = Returned (JList [JInt 1])"
  "sample_loads deep_filter = Raised RecursionError"
  by (simp_all add: sample_loads_def sample_table_def deeply_nested_def alice_body_def
      mallory_body_def message_body_def deep_filter_def takeWhile_replicate)

lemma sync_with_filter_facts:
  "get_access_token (sync_with_filter f) = ''abc''"
  "query_get (query (sync_with_filter f)) ''filter'' = Some f"
  "query_get (query (sync_with_filter f)) ''timeout'' = None"
  by (simp_all add: sync_with_filter_def get_access_token_def query_get_def)

lemma sync_without_filter_facts:
  "get_access_token sync_without_filter = ''abc''"
  "query_get (query sync_without_filter) ''filter'' = None"
  "query_get (query sync_without_filter) ''timeout'' = None"
  by (simp_all add: sync_without_filter_def get_access_token_def query_get_def)

lemma sample_sync_calls:
  "get_access_token request = ''abc'' \<Longrightarrow>
   decode_sync_filter sample_env (query_get (query request) ''filter'') = Returned f \<Longrightarrow>
     calls (snd (sync sample_env request alice_system)) =
       calls alice_system @
         [ClientSync alice_client (query_get (query request) ''timeout'') f]"
  by (simp add: sync_def Let_def alice_registry sample_loads_def sample_table_def
      deeply_nested_def)

lemma sample_decoded_filters:
  "decode_sync_filter sample_env (Some ''not-json'') = Returned (JStr ''not-json'')"
  "decode_sync_filter sample_env (Some ''[1]'') = Returned (JList [JInt 1])"
  "decode_sync_filter sample_env None = Returned JNull"
  by (simp_all add: decode_sync_filter_def sample_loads_filters)

text \<open>
  C6, as claimed: a \<open>filter\<close> that fails to decode, or decodes to a value that is not a
  mapping, reaches the client's sync as an absent filter. On the code this fails: the
  text \<open>not-json\<close> does not decode and is handed to the client as the string
  \<open>not-json\<close>, and \<open>[1]\<close> is handed on as the list it decodes to, where a request
  without a filter hands on \<open>None\<close>.
\<close>

theorem sync_passes_undecodable_filter_on:
  "json_loads sample_env ''not-json'' = Raised JSONDecodeError
   \<and> calls (snd (sync sample_env (sync_with_filter ''not-json'') alice_system)) =
       calls alice_system @ [ClientSync alice_client None (JStr ''not-json'')]
   \<and> json_loads sample_env ''[1]'' = Returned (JList [JInt 1])
   \<and> calls (snd (sync sample_env (sync_with_filter ''[1]'') alice_system)) =
       calls alice_system @ [ClientSync alice_client None (JList [JInt 1])]
   \<and> calls (snd (sync sample_env sync_without_filter alice_system)) =
       calls alice_system @ [ClientSync alice_client None JNull]"
proof -
  have "calls (snd (sync sample_env (sync_with_filter ''not-json'') alice_system)) =
       calls alice_system @ [ClientSync alice_client None (JStr ''not-json'')]"
    using sample_sync_calls [of "sync_with_filter ''not-json''" "JStr ''not-json''"]
    by (simp add: sync_with_filter_facts sample_decoded_filters)
  moreover
  have "calls (snd (sync sample_env (sync_with_filter ''[1]'') alice_system)) =
       calls alice_system @ [ClientSync alice_client None (JList [JInt 1])]"
    using sample_sync_calls [of "sync_with_filter ''[1]''" "JList [JInt 1]"]
    by (simp add: sync_with_filter_facts sample_decoded_filters)
  moreover
  have "calls (snd (sync sample_env sync_without_filter alice_system)) =
       calls alice_system @ [ClientSync alice_client None JNull]"
    using sample_sync_calls [of sync_without_filter JNull]
    by (simp add: sync_without_filter_facts sample_decoded_filters)
  ultimately show ?thesis
    by (simp add: sample_loads_filters)
qed

text \<open>
  C6, as the code has it. For a request with a registered token: when the query has no
  filter, or the filter decodes, or its decoding raises \<open>JSONDecodeError\<close> (or
  \<open>TypeError\<close>), the first call the handler makes is the client's sync, with the
  timeout of the query and this filter: \<open>None\<close> when there is no filter or it decodes
  to an integer or a boolean (or to \<open>null\<close>), the raw text when it does not decode,
  the decoded value in every other case. When the decoding raises any other exception
  (\<open>RecursionError\<close> on nesting too deep), the handler ends with that exception: the
  client's sync is not called and nothing has changed.
\<close>

theorem sync_filter_passed_to_client:
  assumes "get_access_token request \<noteq> []"
    and "map_of (client_sessions (daemon s)) (get_access_token request) = Some client"
  shows
    "(query_get (query request) ''filter'' = None \<longrightarrow>
        take (Suc (length (calls s))) (calls (snd (sync env request s))) =
          calls s @ [ClientSync client (query_get (query request) ''timeout'') JNull])
     \<and> (query_get (query request) ''filter'' = Some str \<and>
        json_loads env str = Returned v \<longrightarrow>
        take (Suc (length (calls s))) (calls (snd (sync env request s))) =
          calls s @ [ClientSync client (query_get (query request) ''timeout'')
                       (if isinstance_int v then JNull else v)])
     \<and> (query_get (query request) ''filter'' = Some str \<and>
        json_loads env str = Raised e \<and> (e = JSONDecodeError \<or> e = TypeError) \<longrightarrow>
        take (Suc (length (calls s))) (calls (snd (sync env request s))) =
          calls s @ [ClientSync client (query_get (query request) ''timeout'') (JStr str)])
     \<and> (query_get (query request) ''filter'' = Some str \<and>
        json_loads env str = Raised e \<and> e \<noteq> JSONDecodeError \<and> e \<noteq> TypeError \<longrightarrow>
        sync env request s = (Raised e, s))"
proof (intro conjI impI)
  assume "query_get (query request) ''filter'' = None"
  then have "decode_sync_filter env (query_get (query request) ''filter'') = Returned JNull"
    by (simp add: decode_sync_filter_def)
  then show "take (Suc (length (calls s))) (calls (snd (sync env request s))) =
          calls s @ [ClientSync client (query_get (query request) ''timeout'') JNull]"
    by (rule sync_first_call [OF assms])
next
  assume "query_get (query request) ''filter'' = Some str \<and> json_loads env str = Returned v"
  then have "decode_sync_filter env (query_get (query request) ''filter'') =
               Returned (if isinstance_int v then JNull else v)"
    by (simp add: decode_sync_filter_def)
  then show "take (Suc (length (calls s))) (calls (snd (sync env request s))) =
          calls s @ [ClientSync client (query_get (query request) ''timeout'')
                       (if isinstance_int v then JNull else v)]"
    by (rule sync_first_call [OF assms])
next
  assume "query_get (query request) ''filter'' = Some str \<and>
        json_loads env str = Raised e \<and> (e = JSONDecodeError \<or> e = TypeError)"
  then have "decode_sync_filter env (query_get (query request) ''filter'') =
               Returned (JStr str)"
    by (auto simp: decode_sync_filter_def)
  then show "take (Suc (length (calls s))) (calls (snd (sync env request s))) =
          calls s @ [ClientSync client (query_get (query request) ''timeout'') (JStr str)]"
    by (rule sync_first_call [OF assms])
next
  assume "query_get (query request) ''filter'' = Some str \<and>
        json_loads env str = Raised e \<and> e \<noteq> JSONDecodeError \<and> e \<noteq> TypeError"
  then have "decode_sync_filter env (query_get (query request) ''filter'') = Raised e"
    by (simp add: decode_sync_filter_def)
  then show "sync env request s = (Raised e, s)"
    by (rule sync_decoder_raises [OF assms])
qed

theorem sync_filter_passed_to_client_witness:
  "take 3 (calls (snd (sync sample_env (sync_with_filter ''42'') alice_system))) =
     calls alice_system @ [ClientSync alice_client None JNull]
   \<and> take 3 (calls (snd (sync sample_env (sync_with_filter ''true'') alice_system))) =
     calls alice_system @ [ClientSync alice_client None JNull]
   \<and> take 3 (calls (snd (sync sample_env sync_without_filter alice_system))) =
     calls alice_system @ [ClientSync alice_client None JNull]
   \<and> take 3 (calls (snd (sync sample_env (sync_with_filter ''not-json'') alice_system))) =
     calls alice_system @ [ClientSync alice_client None (JStr ''not-json'')]
   \<and> json_loads sample_env deep_filter = Raised RecursionError
   \<and> sync sample_env (sync_with_filter deep_filter) alice_system =
     (Raised RecursionError, alice_system)"
proof -
  have reg: "get_access_token (sync_with_filter f) \<noteq> []"
    "map_of (client_sessions (daemon alice_system)) (get_access_token (sync_with_filter f)) =
       Some alice_client"
    "get_access_token sync_without_filter \<noteq> []"
    "map_of (client_sessions (daemon alice_system)) (get_access_token sync_without_filter) =
       Some alice_client" for f
    by (simp_all add: sync_with_filter_facts sync_without_filter_facts alice_registry)
  have len: "Suc (length (calls alice_system)) = 3"
    by (simp add: alice_system_def)
  show ?thesis
    using sync_filter_passed_to_client
            [OF reg(1) [of "''42''"] reg(2) [of "''42''"],
             where env = sample_env and str = "''42''" and v = "JInt 42"]
          sync_filter_passed_to_client
            [OF reg(1) [of "''true''"] reg(2) [of "''true''"],
             where env = sample_env and str = "''true''" and v = "JBool True"]
          sync_filter_passed_to_client [OF reg(3) reg(4), where env = sample_env]
          sync_filter_passed_to_client
            [OF reg(1) [of "''not-json''"] reg(2) [of "''not-json''"],
             where env = sample_env and str = "''not-json''" and e = JSONDecodeError]
          sync_filter_passed_to_client
            [OF reg(1) [of deep_filter] reg(2) [of deep_filter],
             where env = sample_env and str = deep_filter and e = RecursionError]
    by (simp add: len sync_with_filter_facts sync_without_filter_facts sample_loads_filters)
qed

section \<open>Shutdown (C9)\<close>

lemma fold_close_client:
  "calls (fold (close_client env) cs s) = calls s @ map ClientClose cs
   \<and> daemon (fold (close_client env) cs s) = daemon s
   \<and> next_id (fold (close_client env) cs s) = next_id s"
  by (induction cs arbitrary: s) (simp_all add: close_client_def)

lemma shutdown_calls:
  "calls (shutdown env s) =
     calls s @ map ClientClose (map snd (client_sessions (daemon s))) @
       (case default_session (daemon s) of None \<Rightarrow> [] | Some sid \<Rightarrow> [SessionClose sid])"
  by (simp add: shutdown_def Let_def fold_close_client split: option.splits)

lemma shutdown_daemon:
  "daemon (shutdown env s) = (daemon s)\<lparr>default_session := None\<rparr>"
  by (simp add: shutdown_def Let_def fold_close_client split: option.splits)

lemma shutdown_nothing_to_close:
  "client_sessions (daemon s) = [] \<Longrightarrow> default_session (daemon s) = None \<Longrightarrow>
     shutdown env s = s"
  by (simp add: shutdown_def)

text \<open>
  C9, as claimed: shutdown is idempotent, a second invocation has no further effect.
  On the code this fails when a session is registered: the registry is never emptied,
  so the second invocation closes the client of \<open>alice\<close> once more.
\<close>

theorem second_shutdown_closes_sessions_again:
  "calls (shutdown sample_env alice_system) =
     calls alice_system @ [ClientClose alice_client]
   \<and> calls (shutdown sample_env (shutdown sample_env alice_system)) =
     calls alice_system @ [ClientClose alice_client, ClientClose alice_client]
   \<and> shutdown sample_env (shutdown sample_env alice_system) \<noteq>
     shutdown sample_env alice_system"
proof -
  have c1: "calls (shutdown sample_env alice_system) =
     calls alice_system @ [ClientClose alice_client]"
    by (simp add: shutdown_calls alice_system_def)
  have c2: "calls (shutdown sample_env (shutdown sample_env alice_system)) =
     calls alice_system @ [ClientClose alice_client, ClientClose alice_client]"
    by (simp add: shutdown_calls [of sample_env "shutdown sample_env alice_system"]
        shutdown_daemon c1) (simp add: alice_system_def)
  have "calls (shutdown sample_env (shutdown sample_env alice_system)) \<noteq>
        calls (shutdown sample_env alice_system)"
    by (simp add: c1 c2)
  then have "shutdown sample_env (shutdown sample_env alice_system) \<noteq>
     shutdown sample_env alice_system"
    by auto
  then show ?thesis using c1 c2 by simp
qed

text \<open>
  C9, as the code has it. Shutdown closes every client in the registry, in the order
  of the registry, and then the default session if there is one; it clears the
  reference to the default session and leaves the registry as it is. A second
  invocation therefore closes every registered client again and the default session
  never again, and leaves the daemon as the first left it; with an empty registry the
  second invocation changes nothing at all. With an empty registry and no default
  session, shutdown makes no call and returns the system unchanged.
\<close>

theorem shutdown_closes_sessions_then_default:
  "calls (shutdown env s) =
     calls s @ map ClientClose (map snd (client_sessions (daemon s))) @
       (case default_session (daemon s) of None \<Rightarrow> [] | Some sid \<Rightarrow> [SessionClose sid])
   \<and> daemon (shutdown env s) = (daemon s)\<lparr>default_session := None\<rparr>
   \<and> calls (shutdown env (shutdown env s)) =
       calls (shutdown env s) @ map ClientClose (map snd (client_sessions (daemon s)))
   \<and> daemon (shutdown env (shutdown env s)) = daemon (shutdown env s)
   \<and> (client_sessions (daemon s) = [] \<longrightarrow>
        shutdown env (shutdown env s) = shutdown env s)
   \<and> (client_sessions (daemon s) = [] \<and> default_session (daemon s) = None \<longrightarrow>
        shutdown env s = s)"
proof -
  have twice: "calls (shutdown env (shutdown env s)) =
       calls (shutdown env s) @ map ClientClose (map snd (client_sessions (daemon s)))"
    by (simp add: shutdown_calls [of env "shutdown env s"] shutdown_daemon)
  have same: "daemon (shutdown env (shutdown env s)) = daemon (shutdown env s)"
    by (simp add: shutdown_daemon)
  have idem: "shutdown env (shutdown env s) = shutdown env s"
    if "client_sessions (daemon s) = []"
    by (rule shutdown_nothing_to_close) (simp_all add: shutdown_daemon that)
  show ?thesis
    using twice same idem
    by (simp add: shutdown_calls shutdown_daemon shutdown_nothing_to_close)
qed

theorem shutdown_closes_sessions_then_default_witness:
  "calls (shutdown sample_env busy_system) =
     calls busy_system @ [ClientClose alice_client, SessionClose 1]
   \<and> default_session (daemon (shutdown sample_env busy_system)) = None
   \<and> client_sessions (daemon (shutdown sample_env busy_system)) = [(''abc'', alice_client)]
   \<and> calls (shutdown sample_env (shutdown sample_env busy_system)) =
     calls busy_system @ [ClientClose alice_client, SessionClose 1, ClientClose alice_client]
   \<and> shutdown sample_env (shutdown sample_env sample_system) = shutdown sample_env sample_system
   \<and> shutdown sample_env sample_system = sample_system"
proof -
  have busy: "client_sessions (daemon busy_system) = [(''abc'', alice_client)]"
    "default_session (daemon busy_system) = Some 1"
    by (simp_all add: busy_system_def alice_system_def)
  have fresh: "client_sessions (daemon sample_system) = []"
    "default_session (daemon sample_system) = None"
    by (simp_all add: sample_system_def init_def)
  show ?thesis
    using shutdown_closes_sessions_then_default [of sample_env busy_system]
          shutdown_closes_sessions_then_default [of sample_env sample_system]
    by (simp add: busy fresh)
qed

section \<open>The default session (C7)\<close>

lemma projections_append [simp]:
  "default_sessions_built (xs @ ys) = default_sessions_built xs @ default_sessions_built ys"
  "sessions_used (xs @ ys) = sessions_used xs @ sessions_used ys"
  "default_sessions_used (xs @ ys) = default_sessions_used xs @ default_sessions_used ys"
  by (simp_all add: default_sessions_built_def sessions_used_def default_sessions_used_def)

lemma projections_simps [simp]:
  "default_sessions_built [] = []"
  "sessions_used [] = []"
  "default_sessions_used [] = []"
  "default_sessions_built (c # cs) =
     (case c of NewClientSession sid \<Rightarrow> [sid] | _ \<Rightarrow> []) @ default_sessions_built cs"
  "sessions_used (c # cs) =
     (case c of SessionRequest session out \<Rightarrow> [session] | _ \<Rightarrow> []) @ sessions_used cs"
  by (simp_all add: default_sessions_built_def sessions_used_def default_sessions_used_def)

lemma default_sessions_used_Cons [simp]:
  "default_sessions_used (c # cs) =
     (case c of SessionRequest (DefaultSession sid) out \<Rightarrow> [sid] | _ \<Rightarrow> []) @
     default_sessions_used cs"
  by (simp add: default_sessions_used_def sessions_used_def split: call.splits http_session.splits)

lemma verify_devices_keeps:
  "daemon (verify_devices env client devs s) = daemon s"
  by (induction devs arbitrary: s) simp_all

lemma verify_calls_projections [simp]:
  "default_sessions_built (concat (map (\<lambda>dev. if deleted dev then []
       else [Print (p dev), VerifyDevice client dev]) devs)) = []"
  "sessions_used (concat (map (\<lambda>dev. if deleted dev then []
       else [Print (p dev), VerifyDevice client dev]) devs)) = []"
  "default_sessions_used (concat (map (\<lambda>dev. if deleted dev then []
       else [Print (p dev), VerifyDevice client dev]) devs)) = []"
  by (induction devs) simp_all

lemma login_keeps:
  "default_session (daemon (snd (login env request s))) = default_session (daemon s)"
  "default_sessions_built (calls (snd (login env request s))) = default_sessions_built (calls s)"
  "sessions_used (calls (snd (login env request s))) = sessions_used (calls s)"
  by (simp_all add: login_def Let_def split_beta
      split: option.splits outcome.splits login_result.splits)

lemma sync_keeps:
  "default_session (daemon (snd (sync env request s))) = default_session (daemon s)"
  "default_sessions_built (calls (snd (sync env request s))) = default_sessions_built (calls s)"
  "sessions_used (calls (snd (sync env request s))) = sessions_used (calls s)"
  by (simp_all add: sync_def Let_def split_beta verify_devices_calls verify_devices_keeps
      split: option.splits sync_result.splits keys_query_result.splits outcome.splits)

lemma send_message_keeps:
  "default_session (daemon (snd (send_message env request s))) = default_session (daemon s)"
  "default_sessions_built (calls (snd (send_message env request s))) =
     default_sessions_built (calls s)"
  "sessions_used (calls (snd (send_message env request s))) = sessions_used (calls s)"
  by (simp_all add: send_message_def Let_def split_beta
      split: option.splits outcome.splits)

lemma router_resolves:
  "sessions_used (calls (snd (router env request s))) =
     sessions_used (calls s) @
       [case map_of (client_sessions (daemon s)) (get_access_token request) of
          Some client \<Rightarrow> ClientTransport client
        | None \<Rightarrow>
            DefaultSession (case default_session (daemon s) of
                              Some sid \<Rightarrow> sid | None \<Rightarrow> next_id s)]"
  "default_sessions_built (calls (snd (router env request s))) =
     default_sessions_built (calls s) @
       (if map_of (client_sessions (daemon s)) (get_access_token request) = None \<and>
           default_session (daemon s) = None
        then [next_id s] else [])"
  "default_session (daemon (snd (router env request s))) =
     (if map_of (client_sessions (daemon s)) (get_access_token request) = None \<and>
         default_session (daemon s) = None
      then Some (next_id s) else default_session (daemon s))"
  by (simp_all add: router_def forward_request_def Let_def split_beta split: option.splits)


lemma handle_invariant:
  assumes "default_sessions_built (calls s) =
             (case default_session (daemon s) of None \<Rightarrow> [] | Some sid \<Rightarrow> [sid])"
    and "set (default_sessions_used (calls s)) \<subseteq> set (default_sessions_built (calls s))"
  shows "default_sessions_built (calls (snd (handle env r s))) =
           (case default_session (daemon (snd (handle env r s))) of
              None \<Rightarrow> [] | Some sid \<Rightarrow> [sid])
         \<and> set (default_sessions_used (calls (snd (handle env r s)))) \<subseteq>
             set (default_sessions_built (calls (snd (handle env r s))))"
proof (cases r)
  case (ToLogin request)
  then show ?thesis
    using assms by (simp add: login_keeps default_sessions_used_def)
next
  case (ToSync request)
  then show ?thesis
    using assms by (simp add: sync_keeps default_sessions_used_def)
next
  case (ToSend request)
  then show ?thesis
    using assms by (simp add: send_message_keeps default_sessions_used_def)
next
  case (ToRouter request)
  then show ?thesis
    using assms
    by (auto simp: router_resolves default_sessions_used_def split: option.splits)
qed

lemma serve_invariant:
  assumes "default_sessions_built (calls s) =
             (case default_session (daemon s) of None \<Rightarrow> [] | Some sid \<Rightarrow> [sid])"
    and "set (default_sessions_used (calls s)) \<subseteq> set (default_sessions_built (calls s))"
  shows "default_sessions_built (calls (serve env rs s)) =
           (case default_session (daemon (serve env rs s)) of
              None \<Rightarrow> [] | Some sid \<Rightarrow> [sid])
         \<and> set (default_sessions_used (calls (serve env rs s))) \<subseteq>
             set (default_sessions_built (calls (serve env rs s)))"
  using assms
proof (induction rs arbitrary: s)
  case Nil
  then show ?case by simp
next
  case (Cons r rs)
  have step: "default_sessions_built (calls (snd (handle env r s))) =
           (case default_session (daemon (snd (handle env r s))) of
              None \<Rightarrow> [] | Some sid \<Rightarrow> [sid])
         \<and> set (default_sessions_used (calls (snd (handle env r s)))) \<subseteq>
             set (default_sessions_built (calls (snd (handle env r s))))"
    by (rule handle_invariant [OF Cons.prems])
  show ?case
    unfolding serve.simps
    by (rule Cons.IH [OF step [THEN conjunct1] step [THEN conjunct2]])
qed

lemma sample_run:
  "sessions_used (calls (serve sample_env sample_traffic sample_system)) =
     [DefaultSession 0, DefaultSession 0,
      ClientTransport (alice_client\<lparr>client_id := 1\<rparr>), DefaultSession 0]"
  "default_sessions_built (calls (serve sample_env sample_traffic sample_system)) = [0]"
  "default_session (daemon (serve sample_env sample_traffic sample_system)) = Some 0"
  by code_simp+


lemma sample_run_default:
  "default_sessions_used (calls (serve sample_env sample_traffic sample_system)) = [0, 0, 0]"
  by (simp add: default_sessions_used_def sample_run)

text \<open>
  C7. Over any sequence of requests that a daemon serves after \<open>init\<close> (through any of
  its four routes): the default sessions ever constructed are exactly the one the
  daemon holds, if it holds one, so at most one is constructed; and every forwarded
  request that went through a default session went through that one. A routed request
  uses exactly one transport: the registered client's when its credential is in the
  registry, otherwise the default session, which is constructed on that request if and
  only if the daemon holds none yet.
\<close>

theorem default_session_built_once:
  "default_sessions_built (calls (serve env requests (init hs dir http_proxy ssl_arg w))) =
     (case default_session (daemon (serve env requests (init hs dir http_proxy ssl_arg w))) of
        None \<Rightarrow> [] | Some sid \<Rightarrow> [sid])
   \<and> length (default_sessions_built
               (calls (serve env requests (init hs dir http_proxy ssl_arg w)))) \<le> 1
   \<and> set (default_sessions_used
            (calls (serve env requests (init hs dir http_proxy ssl_arg w)))) \<subseteq>
     set (default_sessions_built
            (calls (serve env requests (init hs dir http_proxy ssl_arg w))))
   \<and> sessions_used (calls (snd (router env request s))) =
       sessions_used (calls s) @
         [case map_of (client_sessions (daemon s)) (get_access_token request) of
            Some client \<Rightarrow> ClientTransport client
          | None \<Rightarrow>
              DefaultSession (case default_session (daemon s) of
                                Some sid \<Rightarrow> sid | None \<Rightarrow> next_id s)]
   \<and> default_sessions_built (calls (snd (router env request s))) =
       default_sessions_built (calls s) @
         (if map_of (client_sessions (daemon s)) (get_access_token request) = None \<and>
             default_session (daemon s) = None
          then [next_id s] else [])"
proof -
  let ?s0 = "init hs dir http_proxy ssl_arg w :: 'a system"
  have "default_sessions_built (calls ?s0) =
          (case default_session (daemon ?s0) of None \<Rightarrow> [] | Some sid \<Rightarrow> [sid])"
    and "set (default_sessions_used (calls ?s0)) \<subseteq> set (default_sessions_built (calls ?s0))"
    by (simp_all add: init_def)
  then have both: "default_sessions_built (calls (serve env requests ?s0)) =
           (case default_session (daemon (serve env requests ?s0)) of
              None \<Rightarrow> [] | Some sid \<Rightarrow> [sid])
         \<and> set (default_sessions_used (calls (serve env requests ?s0))) \<subseteq>
             set (default_sessions_built (calls (serve env requests ?s0)))"
    by (rule serve_invariant)
  have once: "length (default_sessions_built (calls (serve env requests ?s0))) \<le> 1"
    by (simp add: both [THEN conjunct1] split: option.splits)
  show ?thesis
    by (intro conjI both [THEN conjunct1] both [THEN conjunct2] once router_resolves)
qed

theorem default_session_built_once_witness:
  "default_sessions_built (calls (serve sample_env sample_traffic sample_system)) = [0]
   \<and> default_session (daemon (serve sample_env sample_traffic sample_system)) = Some 0
   \<and> default_sessions_used (calls (serve sample_env sample_traffic sample_system)) = [0, 0, 0]
   \<and> sessions_used (calls (serve sample_env sample_traffic sample_system)) =
       [DefaultSession 0, DefaultSession 0,
        ClientTransport (alice_client\<lparr>client_id := 1\<rparr>), DefaultSession 0]
   \<and> sessions_used (calls (snd (router sample_env bearer_request sample_system))) =
       [DefaultSession 0]
   \<and> sessions_used (calls (snd (router sample_env alice_query_request alice_system))) =
       [ClientTransport alice_client]
   \<and> default_sessions_built
       (calls (snd (router sample_env alice_query_request alice_system))) = []"
proof -
  have tokens: "get_access_token bearer_request = ''bcd''"
    by (simp add: bearer_request_def get_access_token_def query_get_def headers_get_def
        lower_str_def lower_char_def py_strip_def)
  have fresh: "client_sessions (daemon sample_system) = []"
    "default_session (daemon sample_system) = None" "next_id sample_system = 0"
    "calls sample_system = []"
    by (simp_all add: sample_system_def init_def)
  have alice: "default_session (daemon alice_system) = None"
    "sessions_used (calls alice_system) = []"
    "default_sessions_built (calls alice_system) = []"
    by (simp_all add: alice_system_def)
  show ?thesis
    using default_session_built_once
            [where env = sample_env and requests = sample_traffic
               and hs = "''https://example.org''" and dir = "''/var/lib/pantalaimon''"
               and http_proxy = "Some ''http://proxy.local:3128''" and ssl_arg = SslNone
               and w = "0::nat" and request = bearer_request and s = sample_system]
          default_session_built_once
            [where env = sample_env and requests = "[]"
               and hs = "''https://example.org''" and dir = "''/var/lib/pantalaimon''"
               and http_proxy = "Some ''http://proxy.local:3128''" and ssl_arg = SslNone
               and w = "0::nat" and request = alice_query_request and s = alice_system]
    unfolding sample_system_def [symmetric]
    by (simp add: sample_run sample_run_default tokens fresh alice alice_registry
        token_alice_query_request)
qed

end
